theory Spec2Isabelle
  imports Main
begin

section \<open>JavaScript values and constants\<close>

text \<open>
  The few JavaScript values the modelled code computes with. Numbers are the integer
  millisecond counts and counters of the source; \<open>Undefined\<close> is JavaScript's
  \<open>undefined\<close>. A \<open>Date\<close> object carries its time value in milliseconds.
\<close>

datatype jsval = Undefined | Num int | Str string | DateObj int

text \<open>src/src/constants.js, lines 3, 4 and 93.\<close>

definition SECOND_IN_MILLISECONDS :: int where
  "SECOND_IN_MILLISECONDS = 1000"

definition MINUTE_IN_MILLISECONDS :: int where
  "MINUTE_IN_MILLISECONDS = 60 * SECOND_IN_MILLISECONDS"

definition API_RATE_LIMIT_EXPIRE_AFTER_MILLISECONDS :: int where
  "API_RATE_LIMIT_EXPIRE_AFTER_MILLISECONDS = 5 * MINUTE_IN_MILLISECONDS"

text \<open>
  \<open>Number.prototype.toString\<close> on an integer of magnitude below \<open>10^21\<close>: its
  decimal digits, with a leading minus sign for a negative number. From \<open>10^21\<close> on
  JavaScript prints the exponential form (\<open>1e+21\<close>), which this function does not
  render; the durations and counters it is applied to are far below that bound.
\<close>

definition digitChar :: "nat \<Rightarrow> char" where
  "digitChar d = ''0123456789'' ! d"

fun natToString :: "nat \<Rightarrow> string" where
  "natToString n =
     (if n < 10 then [digitChar n] else natToString (n div 10) @ [digitChar (n mod 10)])"

declare natToString.simps [simp del]

definition numberToString :: "int \<Rightarrow> string" where
  "numberToString i = (if i < 0 then CHR ''-'' # natToString (nat (- i)) else natToString (nat i))"

text \<open>
  JavaScript's binary \<open>+\<close>. Both operands are first converted to primitives; a
  \<open>Date\<close> converts with the hint "default", which \<open>Date.prototype[Symbol.toPrimitive]\<close>
  treats as "string", so a \<open>Date\<close> operand becomes its \<open>toString()\<close> text. If either
  primitive is a string the result is the concatenation of the two texts; only two
  numbers are added. The text of a date depends on the host's time zone and is the
  parameter \<open>dateToString\<close>. A sum with \<open>undefined\<close> and a number is \<open>NaN\<close>, which
  the modelled code never produces; it is rendered as \<open>Undefined\<close>. \<open>primToString\<close>
  is only applied to primitives, so its value on a \<open>Date\<close> is never read.
\<close>

fun toPrimitive :: "(int \<Rightarrow> string) \<Rightarrow> jsval \<Rightarrow> jsval" where
  "toPrimitive dateToString (DateObj t) = Str (dateToString t)"
| "toPrimitive dateToString v = v"

fun primToString :: "jsval \<Rightarrow> string" where
  "primToString (Str s) = s"
| "primToString (Num n) = numberToString n"
| "primToString Undefined = ''undefined''"
| "primToString (DateObj t) = []"

fun isStr :: "jsval \<Rightarrow> bool" where
  "isStr (Str s) = True"
| "isStr v = False"

definition jsPlus :: "(int \<Rightarrow> string) \<Rightarrow> jsval \<Rightarrow> jsval \<Rightarrow> jsval" where
  "jsPlus dateToString a b =
     (let pa = toPrimitive dateToString a; pb = toPrimitive dateToString b
      in if isStr pa \<or> isStr pb then Str (primToString pa @ primToString pb)
         else (case (pa, pb) of (Num x, Num y) \<Rightarrow> Num (x + y) | _ \<Rightarrow> Undefined))"

section \<open>Rate limit structures\<close>

text \<open>
  The state handed to the \<open>RateLimit\<close> constructor and to \<open>assignIfStricter\<close>:
  the object literal \<open>{ remaining, limit, resetTimestamp, resetAfter }\<close>.
\<close>

record RateLimitState =
  remaining :: int
  limit :: int
  resetTimestamp :: jsval
  resetAfter :: int

text \<open>
  A \<open>RateLimitTemplate\<close> as \<open>createAssumedRateLimit\<close> reads it: the fields
  \<open>limit\<close> and \<open>resetAfter\<close> (prefixed here, the names being taken by the state).
\<close>

record RateLimitTemplate =
  template_limit :: int
  template_resetAfter :: int

text \<open>
  The classes \<open>RateLimit\<close> and \<open>RateLimitTemplate\<close> are imported by the modelled
  files and not part of them. A \<open>RateLimit\<close> object is represented by what its
  constructor is given, the state and the template, together with the \<open>expires\<close>
  field that the sweep reads.
\<close>

record RateLimit =
  rl_state :: RateLimitState
  rl_template :: "RateLimitTemplate option"
  expires :: int

subsection \<open>RateLimitTemplateMap.createAssumedRateLimit\<close>

text \<open>
  src/src/clients/Api/structures/RateLimitTemplateMap.ts, lines 32-44. The map is the
  partial function from bucket to template; \<open>newRateLimit\<close> is the constructor
  \<open>new RateLimit(state, template)\<close>; \<open>now\<close> is the time value of \<open>new Date()\<close>.
  \<open>None\<close> is the returned \<open>undefined\<close>.
\<close>

definition createAssumedRateLimit ::
  "(RateLimitState \<Rightarrow> RateLimitTemplate \<Rightarrow> 'r) \<Rightarrow> (int \<Rightarrow> string) \<Rightarrow> int \<Rightarrow>
   (string \<rightharpoonup> RateLimitTemplate) \<Rightarrow> string \<Rightarrow> 'r option" where
  "createAssumedRateLimit newRateLimit dateToString now templates bucket =
     (case templates bucket of
        Some template \<Rightarrow>
          (let limit' = template_limit template;
               remaining' = template_limit template;
               resetTimestamp' = jsPlus dateToString (DateObj now) (Num (template_resetAfter template))
           in Some (newRateLimit
                \<lparr>remaining = remaining', limit = limit', resetTimestamp = resetTimestamp',
                 resetAfter = 0\<rparr> template))
      | None \<Rightarrow> None)"

subsection \<open>RateLimitMap\<close>

text \<open>
  \<open>RateLimitMap extends Map\<close>: the entries in insertion order, one per key.
  \<open>Map.get\<close> is \<^const>\<open>map_of\<close>; \<open>Map.set\<close> of an absent key appends the entry;
  \<open>Map.delete\<close> removes the entry of the key. \<open>assignIfStricter\<close> mutates the
  object the map holds, so the entry is replaced in place by the mutated object and the
  reference the caller holds denotes the same mutated object.
\<close>

type_synonym ('k, 'r) RateLimitMap = "('k \<times> 'r) list"

definition map_delete :: "'k \<Rightarrow> ('k, 'r) RateLimitMap \<Rightarrow> ('k, 'r) RateLimitMap" where
  "map_delete key m = filter (\<lambda>e. fst e \<noteq> key) m"

definition map_replace :: "'k \<Rightarrow> 'r \<Rightarrow> ('k, 'r) RateLimitMap \<Rightarrow> ('k, 'r) RateLimitMap" where
  "map_replace key r m = map (\<lambda>e. if fst e = key then (key, r) else e) m"

text \<open>
  \<open>upsert\<close> as in src/src/clients/Api/structures/RateLimitTemplateMap.ts, lines 59-72:
  the state is rebuilt from its four fields, the looked-up variable is a \<open>let\<close> that
  is assigned the new object, and that variable is returned.
\<close>

definition upsert ::
  "(RateLimitState \<Rightarrow> 't \<Rightarrow> 'r) \<Rightarrow> (RateLimitState \<Rightarrow> 'r \<Rightarrow> 'r) \<Rightarrow>
   'k \<Rightarrow> RateLimitState \<Rightarrow> 't \<Rightarrow> ('k, 'r) RateLimitMap \<Rightarrow> 'r option \<times> ('k, 'r) RateLimitMap" where
  "upsert newRateLimit assignIfStricter rateLimitKey st template m =
     (let state = \<lparr>remaining = remaining st, limit = limit st,
                   resetTimestamp = resetTimestamp st, resetAfter = resetAfter st\<rparr>
      in case map_of m rateLimitKey of
           None \<Rightarrow>
             (let rateLimit = newRateLimit state template
              in (Some rateLimit, m @ [(rateLimitKey, rateLimit)]))
         | Some rateLimit \<Rightarrow>
             (let rateLimit' = assignIfStricter state rateLimit
              in (Some rateLimit', map_replace rateLimitKey rateLimit' m)))"

text \<open>
  \<open>upsert\<close> as in src/unnamed/part_002, lines 12-21: the looked-up variable is a
  \<open>const\<close>, the new object goes straight into the map, and the variable is returned
  as it was looked up.
\<close>

definition upsert_part_002 ::
  "(RateLimitState \<Rightarrow> 't \<Rightarrow> 'r) \<Rightarrow> (RateLimitState \<Rightarrow> 'r \<Rightarrow> 'r) \<Rightarrow>
   'k \<Rightarrow> RateLimitState \<Rightarrow> 't \<Rightarrow> ('k, 'r) RateLimitMap \<Rightarrow> 'r option \<times> ('k, 'r) RateLimitMap" where
  "upsert_part_002 newRateLimit assignIfStricter rateLimitKey state template m =
     (case map_of m rateLimitKey of
        None \<Rightarrow> (None, m @ [(rateLimitKey, newRateLimit state template)])
      | Some rateLimit \<Rightarrow>
          (let rateLimit' = assignIfStricter state rateLimit
           in (Some rateLimit', map_replace rateLimitKey rateLimit' m)))"

text \<open>
  \<open>sweepExpiredRateLimits\<close>, src/unnamed/part_002, lines 22-29 (the same text stands at
  lines 73-80 of RateLimitTemplateMap.ts). The \<open>for ... of this.entries()\<close> loop visits
  the entries in order; deleting the entry being visited does not disturb the visit of
  the later ones. \<open>sweepLoop\<close> is the loop over the entries still to visit, threading
  the map.
\<close>

fun sweepLoop ::
  "int \<Rightarrow> ('k \<times> 'a RateLimit_scheme) list \<Rightarrow> ('k, 'a RateLimit_scheme) RateLimitMap \<Rightarrow>
   ('k, 'a RateLimit_scheme) RateLimitMap" where
  "sweepLoop now [] m = m"
| "sweepLoop now ((key, r) # rest) m =
     sweepLoop now rest (if expires r < now then map_delete key m else m)"

definition sweepExpiredRateLimits ::
  "int \<Rightarrow> ('k, 'a RateLimit_scheme) RateLimitMap \<Rightarrow> ('k, 'a RateLimit_scheme) RateLimitMap" where
  "sweepExpiredRateLimits now m = sweepLoop now m m"

text \<open>
  \<open>startSweepInterval\<close>, src/unnamed/part_002, lines 30-32: \<open>setInterval\<close> of the sweep
  with the period below. The timer is represented by its period; each firing at time
  \<open>now\<close> runs \<open>sweepExpiredRateLimits now\<close>.
\<close>

definition startSweepInterval :: int where
  "startSweepInterval = API_RATE_LIMIT_EXPIRE_AFTER_MILLISECONDS"

section \<open>The Paracord client\<close>

text \<open>
  src/unnamed/part_001. A \<open>Gateway\<close> is known to the client by its shard id
  (\<open>gateway.id\<close>); \<open>addNewGateway\<close> refuses a second gateway with the same id, so
  the object identity tested by \<open>===\<close> is equality of ids.
\<close>

datatype Gateway = Gateway (gateway_id: int)

datatype DebugLevel = FATAL | ERROR | WARNING | INFO | DEBUG

text \<open>
  What the client passes to \<open>this.emit\<close>: a \<open>'DEBUG'\<close> log event with its level
  (the message text is left out), \<open>'SHARD_STARTUP_COMPLETE'\<close> with \<open>{ shard, forced }\<close>
  and \<open>'PARACORD_STARTUP_COMPLETE'\<close>.
\<close>

datatype Emitted =
    LogEvent DebugLevel
  | SHARD_STARTUP_COMPLETE "Gateway option" bool
  | PARACORD_STARTUP_COMPLETE

datatype error =
    TokenRequired
  | AlreadyInitialized
  | ShardIdExceedsMax int int
  | ShardsWithNoShardCount
  | InvalidShards
  | DuplicateShardId int
  | RequestFailed

text \<open>
  The fields of the class that the login loop, the startup tracking and the event
  fan-out read and write. An optional field (\<open>?:\<close> or \<open>| undefined\<close>) is an
  \<open>option\<close>, \<open>None\<close> being \<open>undefined\<close>. \<open>startWithUnavailableGuildsInterval\<close> holds
  the gateway bound to the running timer and is \<open>None\<close> when no timer runs.
  \<open>emitted\<close> is the sequence of \<open>this.emit\<close> calls so far.
\<close>

record Paracord =
  token :: string
  initialized :: bool
  unavailableGuildTolerance :: "int option"
  unavailableGuildWait :: "int option"
  startWithUnavailableGuildsInterval :: "Gateway option"
  gateways :: "Gateway list"
  gatewayLoginQueue :: "Gateway list"
  safeGatewayIdentifyTimestamp :: "int option"
  gatewayWaitCount :: "int option"
  startingGateway :: "Gateway option"
  guildWaitCount :: "int option"
  lastGuildTimestamp :: "int option"
  allowEventsDuringStartup :: bool
  preventLogin :: bool
  emitted :: "Emitted list"

text \<open>Truthiness of an optional number: defined and not zero.\<close>

fun truthy :: "int option \<Rightarrow> bool" where
  "truthy None = False"
| "truthy (Some n) = (n \<noteq> 0)"

subsection \<open>Construction\<close>

text \<open>
  Modelled from the spec: \<open>coerceTokenToBotLike\<close> is only declared in the sources
  (src/unnamed/part_002, line 42). Section 6 of the specification: "if it is not already
  prefixed with the bot scheme (\<open>Bot \<close>), prepend it".
\<close>

definition coerceTokenToBotLike :: "string \<Rightarrow> string" where
  "coerceTokenToBotLike t = (if take 4 t = ''Bot '' then t else ''Bot '' @ t)"

text \<open>
  \<open>validateParams\<close>, lines 117-121: throws on an \<open>undefined\<close> token. The model
  hands back the token it found defined.
\<close>

definition validateParams :: "string option \<Rightarrow> error + string" where
  "validateParams t = (case t of None \<Rightarrow> Inl TokenRequired | Some tok \<Rightarrow> Inr tok)"

text \<open>
  \<open>init\<close>, lines 419-426. The \<open>Api\<close> client it creates is a collaborator outside the
  modelled state.
\<close>

definition init :: "Paracord \<Rightarrow> error + Paracord" where
  "init this = (if initialized this then Inl AlreadyInitialized
                else Inr (this\<lparr>initialized := True\<rparr>))"

text \<open>
  The constructor, lines 129-153. Of the options only \<open>autoInit\<close> bears on the modelled
  fields; the fields the constructor does not assign start out \<open>undefined\<close>.
\<close>

record ParacordOptions =
  autoInit :: "bool option"

definition new_Paracord :: "string option \<Rightarrow> ParacordOptions \<Rightarrow> error + Paracord" where
  "new_Paracord t options =
     (case validateParams t of
        Inl e \<Rightarrow> Inl e
      | Inr tok \<Rightarrow>
          (let this = \<lparr>token = coerceTokenToBotLike tok,
                       initialized = False,
                       unavailableGuildTolerance = None,
                       unavailableGuildWait = None,
                       startWithUnavailableGuildsInterval = None,
                       gateways = [],
                       gatewayLoginQueue = [],
                       safeGatewayIdentifyTimestamp = None,
                       gatewayWaitCount = None,
                       startingGateway = None,
                       guildWaitCount = Some 0,
                       lastGuildTimestamp = None,
                       allowEventsDuringStartup = False,
                       preventLogin = False,
                       emitted = []\<rparr>
           in if autoInit options \<noteq> Some False then init this else Inr this))"

subsection \<open>Startup tracking\<close>

text \<open>\<open>log\<close>, lines 229-236: emits a \<open>'DEBUG'\<close> event.\<close>

definition log :: "DebugLevel \<Rightarrow> Paracord \<Rightarrow> Paracord" where
  "log level this = this\<lparr>emitted := emitted this @ [LogEvent level]\<rparr>"

text \<open>\<open>clearStartingShardState\<close>, lines 566-571; \<open>clearInterval\<close> stops the timer.\<close>

definition clearStartingShardState :: "Paracord \<Rightarrow> Paracord" where
  "clearStartingShardState this =
     this\<lparr>startingGateway := None,
          lastGuildTimestamp := None,
          guildWaitCount := None,
          startWithUnavailableGuildsInterval := None\<rparr>"

text \<open>
  \<open>completeShardStartup\<close>, lines 552-564. The parameter \<open>forced\<close> defaults to
  \<open>false\<close> when the caller passes \<open>undefined\<close>. \<open>releaseIdentifyLocks\<close> acts on the
  gateway only.
\<close>

definition completeShardStartup :: "Gateway \<Rightarrow> bool option \<Rightarrow> Paracord \<Rightarrow> Paracord" where
  "completeShardStartup startingGateway' forced' this =
     (let forced = (case forced' of None \<Rightarrow> False | Some b \<Rightarrow> b);
          this1 = (if \<not> forced then log INFO this else this);
          shard = startingGateway this1;
          this2 = clearStartingShardState this1
      in this2\<lparr>emitted := emitted this2 @ [SHARD_STARTUP_COMPLETE shard forced]\<rparr>)"

text \<open>\<open>completeStartup\<close>, lines 577-585.\<close>

definition completeStartup :: "Paracord \<Rightarrow> Paracord" where
  "completeStartup this =
     (let this1 = log INFO this
      in this1\<lparr>emitted := emitted this1 @ [PARACORD_STARTUP_COMPLETE]\<rparr>)"

text \<open>
  \<open>checkIfDoneStarting\<close>, lines 530-550. \<open>forced\<close> is the optional argument;
  \<open>now\<close> is \<open>new Date().getTime()\<close>.
\<close>

definition checkIfDoneStarting :: "bool option \<Rightarrow> int \<Rightarrow> Paracord \<Rightarrow> Paracord" where
  "checkIfDoneStarting forced now this =
     (case (startingGateway this, gatewayWaitCount this) of
        (Some startingGateway', Some gatewayWaitCount') \<Rightarrow>
          if forced = Some True \<or> guildWaitCount this = Some 0 then
            (let this1 = completeShardStartup startingGateway' forced this
             in case gatewayWaitCount this1 of
                  None \<Rightarrow> this1
                | Some c \<Rightarrow>
                    (let this2 = this1\<lparr>gatewayWaitCount := Some (c - 1)\<rparr>
                     in if c - 1 = 0 then completeStartup this2 else this2))
          else if (case guildWaitCount this of Some c \<Rightarrow> c < 0 | None \<Rightarrow> False) then
            log WARNING this
          else
            log INFO (this\<lparr>lastGuildTimestamp := Some now\<rparr>)
      | _ \<Rightarrow> log WARNING this)"

text \<open>
  \<open>handleReady\<close>, lines 506-524, as far as the startup counters go: \<open>guilds\<close> is
  \<open>data.guilds.length\<close>. Filling the guild cache and storing the user are outside
  the modelled state.
\<close>

definition handleReady :: "nat \<Rightarrow> int \<Rightarrow> Paracord \<Rightarrow> Paracord" where
  "handleReady guilds now this =
     (let this1 = log INFO (log INFO (this\<lparr>guildWaitCount := Some (int guilds)\<rparr>))
      in if guilds = 0 then checkIfDoneStarting None now this1
         else this1\<lparr>lastGuildTimestamp := Some now\<rparr>)"

subsection \<open>The login loop\<close>

text \<open>
  \<open>startWithUnavailableGuilds\<close>, lines 326-339. A comparison with \<open>undefined\<close>
  (converted to \<open>NaN\<close>) is false, and so is one with a sum that has an \<open>undefined\<close>
  summand.
\<close>

definition startWithUnavailableGuilds :: "Gateway \<Rightarrow> int \<Rightarrow> Paracord \<Rightarrow> Paracord" where
  "startWithUnavailableGuilds gateway now this =
     (let withinTolerance =
            (case (guildWaitCount this, unavailableGuildTolerance this) of
               (Some c, Some tolerance) \<Rightarrow> c \<le> tolerance
             | _ \<Rightarrow> False);
          timedOut =
            (case (lastGuildTimestamp this, unavailableGuildWait this) of
               (Some t, Some wait) \<Rightarrow> t + wait * 1000 < now
             | _ \<Rightarrow> False)
      in if startingGateway this = Some gateway \<and> withinTolerance \<and> timedOut then
           checkIfDoneStarting (Some True) now (log WARNING this)
         else this)"

text \<open>
  \<open>processGatewayQueue\<close>, lines 296-324: one tick of the login interval at time
  \<open>now\<close>. \<open>loginOk\<close> tells whether \<open>await gateway.login()\<close> returned (\<open>True\<close>) or
  threw (\<open>False\<close>).
\<close>

definition processGatewayQueue :: "int \<Rightarrow> bool \<Rightarrow> Paracord \<Rightarrow> Paracord" where
  "processGatewayQueue now loginOk this =
     (if \<not> preventLogin this
         \<and> gatewayLoginQueue this \<noteq> []
         \<and> startingGateway this = None
         \<and> (case safeGatewayIdentifyTimestamp this of None \<Rightarrow> False | Some t \<Rightarrow> now > t)
      then
        (case gatewayLoginQueue this of
           [] \<Rightarrow> this
         | gateway # rest \<Rightarrow>
             (let this1 = this\<lparr>gatewayLoginQueue := rest,
                               safeGatewayIdentifyTimestamp := Some (10 * SECOND_IN_MILLISECONDS),
                               startingGateway := Some gateway\<rparr>
              in if loginOk then
                   (if truthy (unavailableGuildTolerance this) \<and> truthy (unavailableGuildWait this)
                    then this1\<lparr>startWithUnavailableGuildsInterval := Some gateway\<rparr>
                    else this1)
                 else
                   (let this2 = clearStartingShardState (log FATAL this1)
                    in this2\<lparr>gatewayLoginQueue := gateway # gatewayLoginQueue this2\<rparr>)))
      else this)"

text \<open>
  One firing of the timer installed at line 316: it runs \<open>startWithUnavailableGuilds\<close>
  for the gateway it was bound to, as long as it has not been cleared.
\<close>

definition startWithUnavailableGuildsInterval_fires :: "int \<Rightarrow> Paracord \<Rightarrow> Paracord" where
  "startWithUnavailableGuildsInterval_fires now this =
     (case startWithUnavailableGuildsInterval this of
        None \<Rightarrow> this
      | Some gateway \<Rightarrow> startWithUnavailableGuilds gateway now this)"

subsection \<open>Event fan-out\<close>

text \<open>
  The payload of a gateway event: any JavaScript value, an object being an element of
  \<open>'o\<close>.
\<close>

datatype 'o payload = PUndefined | PNull | PBool bool | PNum int | PStr string | PObject 'o

fun payload_truthy :: "'o payload \<Rightarrow> bool" where
  "payload_truthy PUndefined = False"
| "payload_truthy PNull = False"
| "payload_truthy (PBool b) = b"
| "payload_truthy (PNum n) = (n \<noteq> 0)"
| "payload_truthy (PStr s) = (s \<noteq> [])"
| "payload_truthy (PObject ob) = True"

text \<open>
  \<open>data ?? typeof data === 'object'\<close>: the right operand is taken only for \<open>null\<close>
  (whose \<open>typeof\<close> is \<open>'object'\<close>) and \<open>undefined\<close> (whose is not).
\<close>

fun data_or_typeof_object :: "'o payload \<Rightarrow> bool" where
  "data_or_typeof_object PUndefined = False"
| "data_or_typeof_object PNull = True"
| "data_or_typeof_object d = payload_truthy d"

text \<open>
  \<open>eventHandler\<close>, lines 201-221. \<open>objectKeysSnakeToCamel\<close> is declared and not
  defined in the sources, and the functions of \<open>this.gatewayEvents\<close> come from a module
  that is not part of them; both are parameters, taken to return. An event function is
  bound to the client and may change it, so it maps the client to the value it returns
  and the client it leaves. The result is the returned value, \<open>PUndefined\<close> for
  \<open>undefined\<close>, and the client afterwards.
\<close>

definition eventHandler ::
  "('o payload \<Rightarrow> 'o payload) \<Rightarrow>
   (string \<Rightarrow> ('o payload \<Rightarrow> int \<Rightarrow> Paracord \<Rightarrow> 'o payload \<times> Paracord) option) \<Rightarrow>
   int \<Rightarrow> string \<Rightarrow> 'o payload \<Rightarrow> int \<Rightarrow> Paracord \<Rightarrow> 'o payload \<times> Paracord" where
  "eventHandler objectKeysSnakeToCamel gatewayEvents now eventType data shard this =
     (let emit0 = (if data_or_typeof_object data then objectKeysSnakeToCamel data else data);
          (emit, this1) = (case gatewayEvents eventType of
                             None \<Rightarrow> (emit0, this)
                           | Some paracordEvent \<Rightarrow> paracordEvent data shard this)
      in if map_option gateway_id (startingGateway this1) = Some shard
            \<and> guildWaitCount this1 \<noteq> None
         then
           (if eventType = ''GUILD_CREATE'' then
              (PUndefined,
               checkIfDoneStarting None now
                 (this1\<lparr>guildWaitCount := map_option (\<lambda>c. c - 1) (guildWaitCount this1)\<rparr>))
            else
              ((if allowEventsDuringStartup this1 then data else PUndefined), this1))
         else (emit, this1))"

subsection \<open>Shard planning\<close>

text \<open>
  The check of lines 347-353 on one id, and the \<open>forEach\<close> over the ids, which stops
  at the first throw.
\<close>

definition checkShardId :: "int \<Rightarrow> int \<Rightarrow> error + unit" where
  "checkShardId shardCount s =
     (if s + 1 > shardCount then Inl (ShardIdExceedsMax s (shardCount - 1)) else Inr ())"

fun checkShardIds :: "int list \<Rightarrow> int \<Rightarrow> error + unit" where
  "checkShardIds [] shardCount = Inr ()"
| "checkShardIds (s # shards) shardCount =
     (case checkShardId shardCount s of
        Inl e \<Rightarrow> Inl e
      | Inr _ \<Rightarrow> checkShardIds shards shardCount)"

text \<open>
  \<open>computeShards\<close>, lines 373-398. \<open>gatewayBot\<close> is the outcome of the request
  \<open>get gateway/bot\<close>: an error when it rejects, otherwise the status and the
  recommended shard count.
\<close>

definition computeShards ::
  "(error + int \<times> int) \<Rightarrow> int list option \<Rightarrow> int option \<Rightarrow>
   error + (int list option \<times> int option)" where
  "computeShards gatewayBot shards shardCount =
     (if shards \<noteq> None \<and> shardCount = None then Inl ShardsWithNoShardCount
      else
        (case (if shardCount = None then
                 (case gatewayBot of
                    Inl e \<Rightarrow> Inl e
                  | Inr (status, recommendedShards) \<Rightarrow>
                      Inr (if status = 200 then Some recommendedShards else shardCount))
               else Inr shardCount) of
           Inl e \<Rightarrow> Inl e
         | Inr shardCount' \<Rightarrow>
             (case (shards, shardCount') of
                (None, Some n) \<Rightarrow> Inr (Some [0..n - 1], shardCount')
              | _ \<Rightarrow> Inr (shards, shardCount'))))"

text \<open>
  Modelled from the spec: the class \<open>Gateway\<close>, which \<open>setUpGateway\<close> (lines 462-475)
  instantiates, is not part of the sources. By section 3 of the specification a shard is
  known by its shard index \<open>i\<close>; the gateway created for the identity whose \<open>shard\<close>
  field is \<open>[shard, spawnCount]\<close> has \<open>shard\<close> as its \<open>id\<close>.
\<close>

definition setUpGateway :: "int \<Rightarrow> Gateway" where
  "setUpGateway shard = Gateway shard"

text \<open>
  \<open>addNewGateway\<close>, lines 404-416, for the identity whose \<open>shard\<close> field is
  \<open>[shard, spawnCount]\<close>.
\<close>

definition addNewGateway :: "int \<Rightarrow> Paracord \<Rightarrow> error + Paracord" where
  "addNewGateway shard this =
     (let gateway = setUpGateway shard
      in if gateway_id gateway \<in> set (map gateway_id (gateways this))
         then Inl (DuplicateShardId (gateway_id gateway))
         else Inr (this\<lparr>gatewayWaitCount :=
                          (if truthy (gatewayWaitCount this)
                           then map_option (\<lambda>c. c + 1) (gatewayWaitCount this)
                           else gatewayWaitCount this),
                        gateways := gateways this @ [gateway],
                        gatewayLoginQueue := gatewayLoginQueue this @ [gateway]\<rparr>))"

fun addNewGateways :: "int list \<Rightarrow> Paracord \<Rightarrow> error + Paracord" where
  "addNewGateways [] this = Inr this"
| "addNewGateways (shard # spawnShards) this =
     (case addNewGateway shard this of
        Inl e \<Rightarrow> Inl e
      | Inr this' \<Rightarrow> addNewGateways spawnShards this')"

text \<open>
  \<open>enqueueGateways\<close>, lines 344-366, for the \<open>shards\<close> and \<open>shardCount\<close> of the
  login options.
\<close>

definition enqueueGateways ::
  "(error + int \<times> int) \<Rightarrow> int list option \<Rightarrow> int option \<Rightarrow> Paracord \<Rightarrow> error + Paracord" where
  "enqueueGateways gatewayBot shards shardCount this =
     (case (case (shards, shardCount) of
              (Some ss, Some n) \<Rightarrow> checkShardIds ss n
            | _ \<Rightarrow> Inr ()) of
        Inl e \<Rightarrow> Inl e
      | Inr _ \<Rightarrow>
          (case computeShards gatewayBot shards shardCount of
             Inl e \<Rightarrow> Inl e
           | Inr (Some spawnShards, Some spawnCount) \<Rightarrow> addNewGateways spawnShards this
           | Inr _ \<Rightarrow> Inl InvalidShards))"

section \<open>The rate limit service of the RPC server\<close>

text \<open>
  src/src/rpc/services/rateLimit/addService.ts. The message classes and the classes
  \<open>BaseRequest\<close> and \<open>RateLimitHeaders\<close> are imported and not part of the sources;
  a message is the tuple of its fields, a \<open>RateLimitHeaders\<close> the tuple of its
  constructor's arguments \<open>(global, bucket, limit, remaining, resetAfter)\<close>.
\<close>

datatype RequestMetaMessage = RequestMetaMessage string string

datatype RateLimitStateMessage =
  RateLimitStateMessage RequestMetaMessage bool "string option" "int option" "int option" "int option"

datatype RateLimitHeaders = RateLimitHeaders bool string "int option" "int option" "int option"

text \<open>
  The server as \<open>update\<close> sees it: the rate limit cache, the \<open>cache.update\<close> calls made
  so far with their arguments, the levels of the \<open>'DEBUG'\<close> events emitted, and the
  arguments the callbacks were invoked with (\<open>None\<close> for \<open>null\<close>).
\<close>

record ('c, 'req, 'e) RpcServer =
  rateLimitCache :: 'c
  rateLimitCache_updates :: "('req \<times> RateLimitHeaders) list"
  server_emitted :: "DebugLevel list"
  callbacks :: "'e option list"

text \<open>
  \<open>update\<close>, lines 67-108. \<open>decoded\<close> is the outcome of
  \<open>RateLimitStateMessage.fromProto(call.request)\<close>, \<open>Inl\<close> when it throws;
  \<open>newBaseRequest\<close> is the constructor \<open>new BaseRequest(method, url)\<close>;
  \<open>cacheUpdate\<close> is \<open>this.rateLimitCache.update\<close>: it yields the cache it leaves
  and the error it throws, if any. \<open>this.log\<close> emits at the level it is given; the
  \<open>catch\<close> block emits at \<open>ERROR\<close>.
\<close>

definition update ::
  "(string \<Rightarrow> string \<Rightarrow> 'req) \<Rightarrow> ('req \<Rightarrow> RateLimitHeaders \<Rightarrow> 'c \<Rightarrow> 'e option \<times> 'c) \<Rightarrow>
   ('e + RateLimitStateMessage) \<Rightarrow> ('c, 'req, 'e) RpcServer \<Rightarrow> ('c, 'req, 'e) RpcServer" where
  "update newBaseRequest cacheUpdate decoded this =
     (let catch = (\<lambda>err srv. srv\<lparr>server_emitted := server_emitted srv @ [ERROR],
                                   callbacks := callbacks srv @ [Some err]\<rparr>);
          finish = (\<lambda>srv. srv\<lparr>server_emitted := server_emitted srv @ [DEBUG],
                               callbacks := callbacks srv @ [None]\<rparr>)
      in case decoded of
           Inl err \<Rightarrow> catch err this
         | Inr (RateLimitStateMessage (RequestMetaMessage method url)
                  global bucket limit' remaining' resetAfter') \<Rightarrow>
             (let request = newBaseRequest method url
              in case bucket of
                   None \<Rightarrow> finish this
                 | Some b \<Rightarrow>
                     (let rateLimitHeaders = RateLimitHeaders global b limit' remaining' resetAfter';
                          this1 = this\<lparr>rateLimitCache_updates :=
                                        rateLimitCache_updates this @ [(request, rateLimitHeaders)]\<rparr>
                      in case cacheUpdate request rateLimitHeaders (rateLimitCache this1) of
                           (Some err, cache') \<Rightarrow> catch err (this1\<lparr>rateLimitCache := cache'\<rparr>)
                         | (None, cache') \<Rightarrow> finish (this1\<lparr>rateLimitCache := cache'\<rparr>))))"

section \<open>A concrete client\<close>

text \<open>
  A client about to log in two shards, on which the theorems below are instantiated:
  shards 0 and 1 wait in the login queue, no shard is starting, the guard timestamp is
  0 and two gateways are still to complete their startup.
\<close>

definition example_client :: Paracord where
  "example_client =
     \<lparr>token = ''Bot t'',
      initialized = True,
      unavailableGuildTolerance = None,
      unavailableGuildWait = None,
      startWithUnavailableGuildsInterval = None,
      gateways = [Gateway 0, Gateway 1],
      gatewayLoginQueue = [Gateway 0, Gateway 1],
      safeGatewayIdentifyTimestamp = Some 0,
      gatewayWaitCount = Some 2,
      startingGateway = None,
      guildWaitCount = Some 0,
      lastGuildTimestamp = None,
      allowEventsDuringStartup = False,
      preventLogin = False,
      emitted = []\<rparr>"

section \<open>Properties of the rate limit structures\<close>

lemma sweepLoop_filter:
  "sweepLoop now es m = filter (\<lambda>e. \<not> (\<exists>r. (fst e, r) \<in> set es \<and> expires r < now)) m"
proof (induction es arbitrary: m)
  case Nil
  then show ?case by simp
next
  case (Cons a es)
  obtain k r where a: "a = (k, r)" by (cases a)
  show ?case
    unfolding a by (auto simp: Cons.IH map_delete_def intro!: filter_cong)
qed

lemma distinct_keys_entry:
  assumes "distinct (map fst m)" "e \<in> set m" "(fst e, r) \<in> set m"
  shows "r = snd e"
  using assms by (metis eq_key_imp_eq_value prod.collapse)

lemma RateLimitState_rebuild:
  "\<lparr>remaining = remaining st, limit = limit st,
    resetTimestamp = resetTimestamp st, resetAfter = resetAfter st\<rparr> = st"
  by (cases st) simp

text \<open>
  Claim C2. \<open>createAssumedRateLimit\<close> returns \<open>undefined\<close> for a bucket without a
  template, and for a bucket with one a fresh rate limit whose \<open>remaining\<close> is the
  template's limit. Its \<open>resetTimestamp\<close>, however, is computed as
  \<open>new Date() + template.resetAfter\<close>, which is the text of the date followed by the
  digits of \<open>resetAfter\<close>, not the number of milliseconds \<open>now + resetAfter\<close>: with a
  template of limit 5 and \<open>resetAfter\<close> 1000 at time 1700000000000 the field holds
  the date's text followed by \<open>1000\<close>.
\<close>

theorem createAssumedRateLimit_resetTimestamp_is_text:
  "createAssumedRateLimit newRateLimit dateToString 1700000000000
     [''b'' \<mapsto> \<lparr>template_limit = 5, template_resetAfter = 1000\<rparr>] ''b''
   = Some (newRateLimit
       \<lparr>remaining = 5, limit = 5,
        resetTimestamp = Str (dateToString 1700000000000 @ ''1000''), resetAfter = 0\<rparr>
       \<lparr>template_limit = 5, template_resetAfter = 1000\<rparr>)"
  by (simp add: createAssumedRateLimit_def jsPlus_def numberToString_def natToString.simps
      digitChar_def)

text \<open>
  Claim C7. On a map with one entry per key, \<open>sweepExpiredRateLimits\<close> at time \<open>now\<close>
  leaves exactly the entries whose \<open>expires\<close> is not strictly less than \<open>now\<close>,
  unchanged and in their order (so an entry with \<open>expires = now\<close> stays), and
  \<open>startSweepInterval\<close> runs the sweep every 300000 milliseconds.
\<close>

theorem sweepExpiredRateLimits_deletes_expired:
  assumes "distinct (map fst m)"
  shows "sweepExpiredRateLimits now m = filter (\<lambda>e. \<not> expires (snd e) < now) m
       \<and> startSweepInterval = 300000"
proof -
  have "sweepExpiredRateLimits now m
        = filter (\<lambda>e. \<not> (\<exists>r. (fst e, r) \<in> set m \<and> expires r < now)) m"
    by (simp add: sweepExpiredRateLimits_def sweepLoop_filter)
  also have "\<dots> = filter (\<lambda>e. \<not> expires (snd e) < now) m"
  proof (rule filter_cong[OF refl])
    fix e assume e: "e \<in> set m"
    show "(\<not> (\<exists>r. (fst e, r) \<in> set m \<and> expires r < now)) = (\<not> expires (snd e) < now)"
      using distinct_keys_entry[OF assms e] e by (metis prod.collapse)
  qed
  finally show ?thesis
    by (simp add: startSweepInterval_def API_RATE_LIMIT_EXPIRE_AFTER_MILLISECONDS_def
        MINUTE_IN_MILLISECONDS_def SECOND_IN_MILLISECONDS_def)
qed

theorem sweepExpiredRateLimits_deletes_expired_witness:
  "distinct (map fst
     [(''a'', \<lparr>rl_state = \<lparr>remaining = 0, limit = 5, resetTimestamp = Num 90, resetAfter = 1\<rparr>,
              rl_template = None, expires = 99\<rparr>),
      (''b'', \<lparr>rl_state = \<lparr>remaining = 0, limit = 5, resetTimestamp = Num 90, resetAfter = 1\<rparr>,
              rl_template = None, expires = 100\<rparr>),
      (''c'', \<lparr>rl_state = \<lparr>remaining = 2, limit = 5, resetTimestamp = Num 95, resetAfter = 1\<rparr>,
              rl_template = None, expires = 101\<rparr>)])
   \<and> sweepExpiredRateLimits 100
     [(''a'', \<lparr>rl_state = \<lparr>remaining = 0, limit = 5, resetTimestamp = Num 90, resetAfter = 1\<rparr>,
              rl_template = None, expires = 99\<rparr>),
      (''b'', \<lparr>rl_state = \<lparr>remaining = 0, limit = 5, resetTimestamp = Num 90, resetAfter = 1\<rparr>,
              rl_template = None, expires = 100\<rparr>),
      (''c'', \<lparr>rl_state = \<lparr>remaining = 2, limit = 5, resetTimestamp = Num 95, resetAfter = 1\<rparr>,
              rl_template = None, expires = 101\<rparr>)]
   = [(''b'', \<lparr>rl_state = \<lparr>remaining = 0, limit = 5, resetTimestamp = Num 90, resetAfter = 1\<rparr>,
              rl_template = None, expires = 100\<rparr>),
      (''c'', \<lparr>rl_state = \<lparr>remaining = 2, limit = 5, resetTimestamp = Num 95, resetAfter = 1\<rparr>,
              rl_template = None, expires = 101\<rparr>)]
   \<and> startSweepInterval = 300000"
  using sweepExpiredRateLimits_deletes_expired [of
     "[(''a'', \<lparr>rl_state = \<lparr>remaining = 0, limit = 5, resetTimestamp = Num 90, resetAfter = 1\<rparr>,
              rl_template = None, expires = 99\<rparr>),
      (''b'', \<lparr>rl_state = \<lparr>remaining = 0, limit = 5, resetTimestamp = Num 90, resetAfter = 1\<rparr>,
              rl_template = None, expires = 100\<rparr>),
      (''c'', \<lparr>rl_state = \<lparr>remaining = 2, limit = 5, resetTimestamp = Num 95, resetAfter = 1\<rparr>,
              rl_template = None, expires = 101\<rparr>)]" 100]
  by simp

text \<open>
  Claim C10. The two \<open>upsert\<close> functions leave the map in the same state, and the
  one of RateLimitTemplateMap.ts always returns the rate limit now stored under the key.
  The one of part_002 returns what it looked up before the update: the same object
  when the key was present, and \<open>undefined\<close>, not the rate limit it has just created,
  when the key was absent.
\<close>

theorem upsert_part_002_returns_looked_up:
  "snd (upsert_part_002 newRateLimit assignIfStricter k st t m)
     = snd (upsert newRateLimit assignIfStricter k st t m)
   \<and> fst (upsert newRateLimit assignIfStricter k st t m)
     = Some (case map_of m k of None \<Rightarrow> newRateLimit st t | Some r \<Rightarrow> assignIfStricter st r)
   \<and> fst (upsert_part_002 newRateLimit assignIfStricter k st t m)
     = (case map_of m k of None \<Rightarrow> None | Some r \<Rightarrow> Some (assignIfStricter st r))"
  by (simp add: upsert_def upsert_part_002_def Let_def RateLimitState_rebuild
      split: option.splits)

section \<open>Properties of the client\<close>

lemmas startup_defs = checkIfDoneStarting_def completeShardStartup_def completeStartup_def
  clearStartingShardState_def log_def

text \<open>
  Claim C1. A tick dequeues only when logins are not prevented, the queue is not empty,
  no shard is starting and the guard timestamp is defined and exceeded; but on a dequeue
  the guard is set to the constant 10000, not to the time of the tick plus ten seconds.
  On the example client a tick at time 1700000000000 dequeues shard 0 and leaves the
  guard at 10000; shard 0 reports ready with no guilds half a second later, which
  completes its startup; and the tick at 1700000001000, one second after the first
  dequeue, dequeues shard 1.
\<close>

theorem processGatewayQueue_dequeues_one_second_apart:
  "startingGateway (processGatewayQueue 1700000000000 True example_client) = Some (Gateway 0)
   \<and> gatewayLoginQueue (processGatewayQueue 1700000000000 True example_client) = [Gateway 1]
   \<and> safeGatewayIdentifyTimestamp (processGatewayQueue 1700000000000 True example_client)
       = Some 10000
   \<and> startingGateway
        (handleReady 0 1700000000500 (processGatewayQueue 1700000000000 True example_client))
       = None
   \<and> startingGateway
        (processGatewayQueue 1700000001000 True
          (handleReady 0 1700000000500 (processGatewayQueue 1700000000000 True example_client)))
       = Some (Gateway 1)
   \<and> gatewayLoginQueue
        (processGatewayQueue 1700000001000 True
          (handleReady 0 1700000000500 (processGatewayQueue 1700000000000 True example_client)))
       = []"
  by (simp add: example_client_def processGatewayQueue_def handleReady_def startup_defs Let_def
      SECOND_IN_MILLISECONDS_def)

lemma eventHandler_unfold:
  "eventHandler objectKeysSnakeToCamel gatewayEvents now eventType data shard this =
     (let r = (case gatewayEvents eventType of
                 None \<Rightarrow>
                   (if data_or_typeof_object data then objectKeysSnakeToCamel data else data, this)
               | Some paracordEvent \<Rightarrow> paracordEvent data shard this)
      in if map_option gateway_id (startingGateway (snd r)) = Some shard
            \<and> guildWaitCount (snd r) \<noteq> None
         then
           (if eventType = ''GUILD_CREATE'' then
              (PUndefined,
               checkIfDoneStarting None now
                 ((snd r)\<lparr>guildWaitCount := map_option (\<lambda>c. c - 1) (guildWaitCount (snd r))\<rparr>))
            else
              ((if allowEventsDuringStartup (snd r) then data else PUndefined), snd r))
         else r)"
proof (cases "gatewayEvents eventType")
  case None
  then show ?thesis by (simp only: eventHandler_def Let_def option.case prod.case snd_conv)
next
  case (Some paracordEvent)
  obtain e t where "paracordEvent data shard this = (e, t)"
    by (cases "paracordEvent data shard this")
  with Some show ?thesis by (simp only: eventHandler_def Let_def option.case prod.case snd_conv)
qed

lemma snd_paracordEvent:
  "snd (case gatewayEvents eventType of
          None \<Rightarrow> (e0, this)
        | Some paracordEvent \<Rightarrow> paracordEvent data shard this)
   = (case gatewayEvents eventType of
        None \<Rightarrow> this
      | Some paracordEvent \<Rightarrow> snd (paracordEvent data shard this))"
  by (simp split: option.splits)

lemma checkIfDoneStarting_guildWaitCount:
  assumes "startingGateway this1 \<noteq> None"
  shows "guildWaitCount (checkIfDoneStarting None now (this1\<lparr>guildWaitCount := Some c\<rparr>))
           = (if c = 0 \<and> gatewayWaitCount this1 \<noteq> None then None else Some c)"
  using assms by (auto simp: startup_defs Let_def split: option.splits)

text \<open>
  Claim C3. Let \<open>this'\<close> be the client as the event function of the event type (if
  there is one) leaves it. If the event's shard is the starting shard of \<open>this'\<close> and
  \<open>guildWaitCount\<close> is defined there, with value \<open>n\<close>, then: a \<open>GUILD_CREATE\<close> event
  makes \<open>eventHandler\<close> return \<open>undefined\<close> and run the startup check on the client
  with \<open>guildWaitCount\<close> decremented to \<open>n - 1\<close> (the count stays \<open>n - 1\<close> unless
  that check completes the shard's startup, which clears it); any other event type
  leaves the client as \<open>this'\<close> and returns \<open>undefined\<close>, unless
  \<open>allowEventsDuringStartup\<close> is set, in which case it returns the event data.
\<close>

theorem eventHandler_during_startup:
  assumes this': "this' = (case gatewayEvents eventType of
                      None \<Rightarrow> this
                    | Some paracordEvent \<Rightarrow> snd (paracordEvent data shard this))"
    and starting: "map_option gateway_id (startingGateway this') = Some shard"
    and count: "guildWaitCount this' = Some n"
  shows "fst (eventHandler objectKeysSnakeToCamel gatewayEvents now eventType data shard this)
           = (if eventType = ''GUILD_CREATE'' then PUndefined
              else if allowEventsDuringStartup this' then data else PUndefined)
       \<and> snd (eventHandler objectKeysSnakeToCamel gatewayEvents now eventType data shard this)
           = (if eventType = ''GUILD_CREATE''
              then checkIfDoneStarting None now (this'\<lparr>guildWaitCount := Some (n - 1)\<rparr>)
              else this')
       \<and> guildWaitCount (checkIfDoneStarting None now (this'\<lparr>guildWaitCount := Some (n - 1)\<rparr>))
           = (if n - 1 = 0 \<and> gatewayWaitCount this' \<noteq> None then None else Some (n - 1))"
proof -
  have sg: "startingGateway this' \<noteq> None" using starting by auto
  have r: "snd (case gatewayEvents eventType of
                 None \<Rightarrow>
                   (if data_or_typeof_object data then objectKeysSnakeToCamel data else data, this)
               | Some paracordEvent \<Rightarrow> paracordEvent data shard this) = this'"
    unfolding this' by (rule snd_paracordEvent)
  have 1: "fst (eventHandler objectKeysSnakeToCamel gatewayEvents now eventType data shard this)
           = (if eventType = ''GUILD_CREATE'' then PUndefined
              else if allowEventsDuringStartup this' then data else PUndefined)"
    unfolding eventHandler_unfold Let_def r using starting count by simp
  have 2: "snd (eventHandler objectKeysSnakeToCamel gatewayEvents now eventType data shard this)
           = (if eventType = ''GUILD_CREATE''
              then checkIfDoneStarting None now (this'\<lparr>guildWaitCount := Some (n - 1)\<rparr>)
              else this')"
    unfolding eventHandler_unfold Let_def r using starting count by simp
  show ?thesis using 1 2 checkIfDoneStarting_guildWaitCount[OF sg] by simp
qed

theorem eventHandler_during_startup_witness:
  "fst (eventHandler (\<lambda>d. d) (\<lambda>t. None) 2000 ''GUILD_CREATE'' (PObject ()) 0
         (example_client\<lparr>startingGateway := Some (Gateway 0), guildWaitCount := Some 3\<rparr>))
     = PUndefined
   \<and> guildWaitCount (snd (eventHandler (\<lambda>d. d) (\<lambda>t. None) 2000 ''GUILD_CREATE'' (PObject ()) 0
         (example_client\<lparr>startingGateway := Some (Gateway 0), guildWaitCount := Some 3\<rparr>)))
     = Some 2
   \<and> eventHandler (\<lambda>d. d) (\<lambda>t. None) 2000 ''MESSAGE_CREATE'' (PObject ()) 0
         (example_client\<lparr>startingGateway := Some (Gateway 0), guildWaitCount := Some 3\<rparr>)
     = (PUndefined, example_client\<lparr>startingGateway := Some (Gateway 0), guildWaitCount := Some 3\<rparr>)"
  using eventHandler_during_startup [where
      this' = "example_client\<lparr>startingGateway := Some (Gateway 0), guildWaitCount := Some 3\<rparr>"
      and gatewayEvents = "\<lambda>t. None" and eventType = "''GUILD_CREATE''"
      and this = "example_client\<lparr>startingGateway := Some (Gateway 0), guildWaitCount := Some 3\<rparr>"
      and data = "PObject ()" and shard = 0 and n = 3
      and objectKeysSnakeToCamel = "\<lambda>d. d" and now = 2000]
    eventHandler_during_startup [where
      this' = "example_client\<lparr>startingGateway := Some (Gateway 0), guildWaitCount := Some 3\<rparr>"
      and gatewayEvents = "\<lambda>t. None" and eventType = "''MESSAGE_CREATE''"
      and this = "example_client\<lparr>startingGateway := Some (Gateway 0), guildWaitCount := Some 3\<rparr>"
      and data = "PObject ()" and shard = 0 and n = 3
      and objectKeysSnakeToCamel = "\<lambda>d. d" and now = 2000]
  by (simp add: example_client_def prod_eq_iff)

text \<open>
  Without a defined \<open>gatewayWaitCount\<close> the startup check, forced or not, does
  nothing but log a warning, whatever the other fields hold.
\<close>

lemma checkIfDoneStarting_without_gatewayWaitCount:
  assumes "gatewayWaitCount this = None"
  shows "checkIfDoneStarting forced now this
           = this\<lparr>emitted := emitted this @ [LogEvent WARNING]\<rparr>"
  using assms by (simp add: checkIfDoneStarting_def log_def split: option.splits)

text \<open>
  Claim C4, as the code has it. The startup check acts only when a starting shard is
  present and \<open>gatewayWaitCount\<close> is defined. Then, if the check is forced or
  \<open>guildWaitCount\<close> is zero, it emits \<open>SHARD_STARTUP_COMPLETE\<close> for the starting
  shard (after an \<open>INFO\<close> log when not forced), clears \<open>startingGateway\<close>,
  \<open>guildWaitCount\<close> and \<open>lastGuildTimestamp\<close>, decrements \<open>gatewayWaitCount\<close>,
  and emits \<open>PARACORD_STARTUP_COMPLETE\<close> exactly when the decremented counter is zero.
\<close>

theorem checkIfDoneStarting_completes:
  assumes "startingGateway this = Some g" and "gatewayWaitCount this = Some w"
    and "forced = Some True \<or> guildWaitCount this = Some 0"
  shows "emitted (checkIfDoneStarting forced now this)
           = emitted this
             @ (if forced = Some True then [] else [LogEvent INFO])
             @ [SHARD_STARTUP_COMPLETE (Some g) (forced = Some True)]
             @ (if w - 1 = 0 then [LogEvent INFO, PARACORD_STARTUP_COMPLETE] else [])
       \<and> startingGateway (checkIfDoneStarting forced now this) = None
       \<and> guildWaitCount (checkIfDoneStarting forced now this) = None
       \<and> lastGuildTimestamp (checkIfDoneStarting forced now this) = None
       \<and> gatewayWaitCount (checkIfDoneStarting forced now this) = Some (w - 1)
       \<and> (PARACORD_STARTUP_COMPLETE
            \<in> set (drop (length (emitted this)) (emitted (checkIfDoneStarting forced now this))))
          = (w - 1 = 0)"
  using assms
  by (cases forced) (auto simp: startup_defs Let_def)

theorem checkIfDoneStarting_completes_witness:
  "emitted (checkIfDoneStarting None 2000
      (example_client\<lparr>startingGateway := Some (Gateway 1), gatewayWaitCount := Some 1\<rparr>))
     = [LogEvent INFO, SHARD_STARTUP_COMPLETE (Some (Gateway 1)) False,
        LogEvent INFO, PARACORD_STARTUP_COMPLETE]
   \<and> startingGateway (checkIfDoneStarting None 2000
      (example_client\<lparr>startingGateway := Some (Gateway 1), gatewayWaitCount := Some 1\<rparr>)) = None
   \<and> gatewayWaitCount (checkIfDoneStarting None 2000
      (example_client\<lparr>startingGateway := Some (Gateway 1), gatewayWaitCount := Some 1\<rparr>)) = Some 0"
  using checkIfDoneStarting_completes [of
      "example_client\<lparr>startingGateway := Some (Gateway 1), gatewayWaitCount := Some 1\<rparr>"
      "Gateway 1" 1 None 2000]
  by (simp add: example_client_def)

theorem checkIfDoneStarting_undefined_gatewayWaitCount:
  "emitted (checkIfDoneStarting None 2000
      (example_client\<lparr>startingGateway := Some (Gateway 0), gatewayWaitCount := None\<rparr>))
     = [LogEvent WARNING]
   \<and> startingGateway (checkIfDoneStarting None 2000
      (example_client\<lparr>startingGateway := Some (Gateway 0), gatewayWaitCount := None\<rparr>))
     = Some (Gateway 0)
   \<and> guildWaitCount (checkIfDoneStarting None 2000
      (example_client\<lparr>startingGateway := Some (Gateway 0), gatewayWaitCount := None\<rparr>))
     = Some 0"
  by (simp add: startup_defs example_client_def)

text \<open>
  Claim C5, as the code has it. \<open>startWithUnavailableGuilds\<close> emits
  \<open>SHARD_STARTUP_COMPLETE\<close> with \<open>forced = true\<close> for the gateway it checks if and
  only if \<open>unavailableGuildTolerance\<close> and \<open>unavailableGuildWait\<close> are both defined,
  the gateway is the starting shard, \<open>guildWaitCount\<close> is defined and at most the
  tolerance, \<open>lastGuildTimestamp\<close> is defined with
  \<open>lastGuildTimestamp + wait * 1000 < now\<close>, and \<open>gatewayWaitCount\<close> is defined;
  and it never emits a completion that is not marked forced.
\<close>

theorem startWithUnavailableGuilds_forces_iff:
  "(SHARD_STARTUP_COMPLETE (Some gateway) True
      \<in> set (drop (length (emitted this)) (emitted (startWithUnavailableGuilds gateway now this))))
   = ((\<exists>tolerance wait c t.
         unavailableGuildTolerance this = Some tolerance \<and> unavailableGuildWait this = Some wait
         \<and> startingGateway this = Some gateway
         \<and> guildWaitCount this = Some c \<and> c \<le> tolerance
         \<and> lastGuildTimestamp this = Some t \<and> t + wait * 1000 < now)
      \<and> gatewayWaitCount this \<noteq> None)
   \<and> SHARD_STARTUP_COMPLETE shard False
      \<notin> set (drop (length (emitted this)) (emitted (startWithUnavailableGuilds gateway now this)))"
  by (auto simp: startWithUnavailableGuilds_def startup_defs Let_def split: option.splits)

theorem startWithUnavailableGuilds_forces_iff_witness:
  "emitted (startWithUnavailableGuilds (Gateway 0) 20000
      (example_client\<lparr>unavailableGuildTolerance := Some 5, unavailableGuildWait := Some 10,
         startingGateway := Some (Gateway 0), guildWaitCount := Some 3,
         lastGuildTimestamp := Some 9000\<rparr>))
     = [LogEvent WARNING, SHARD_STARTUP_COMPLETE (Some (Gateway 0)) True]
   \<and> SHARD_STARTUP_COMPLETE (Some (Gateway 0)) True
      \<in> set (drop (length (emitted
        (example_client\<lparr>unavailableGuildTolerance := Some 5, unavailableGuildWait := Some 10,
         startingGateway := Some (Gateway 0), guildWaitCount := Some 3,
         lastGuildTimestamp := Some 9000\<rparr>)))
       (emitted (startWithUnavailableGuilds (Gateway 0) 20000
      (example_client\<lparr>unavailableGuildTolerance := Some 5, unavailableGuildWait := Some 10,
         startingGateway := Some (Gateway 0), guildWaitCount := Some 3,
         lastGuildTimestamp := Some 9000\<rparr>))))"
  using startWithUnavailableGuilds_forces_iff [of "Gateway 0"
      "example_client\<lparr>unavailableGuildTolerance := Some 5, unavailableGuildWait := Some 10,
         startingGateway := Some (Gateway 0), guildWaitCount := Some 3,
         lastGuildTimestamp := Some 9000\<rparr>" 20000]
  by (simp add: example_client_def startWithUnavailableGuilds_def startup_defs)

theorem startWithUnavailableGuilds_undefined_gatewayWaitCount:
  "emitted (startWithUnavailableGuilds (Gateway 0) 20000
      (example_client\<lparr>unavailableGuildTolerance := Some 5, unavailableGuildWait := Some 10,
         startingGateway := Some (Gateway 0), guildWaitCount := Some 3,
         lastGuildTimestamp := Some 9000, gatewayWaitCount := None\<rparr>))
     = [LogEvent WARNING, LogEvent WARNING]
   \<and> startingGateway (startWithUnavailableGuilds (Gateway 0) 20000
      (example_client\<lparr>unavailableGuildTolerance := Some 5, unavailableGuildWait := Some 10,
         startingGateway := Some (Gateway 0), guildWaitCount := Some 3,
         lastGuildTimestamp := Some 9000, gatewayWaitCount := None\<rparr>))
     = Some (Gateway 0)"
  by (simp add: example_client_def startWithUnavailableGuilds_def startup_defs)

lemma checkShardIds_isl: "isl (checkShardIds ss c) = (\<exists>s\<in>set ss. c \<le> s)"
  by (induction ss) (auto simp: checkShardId_def)

lemma checkShardIds_Inl:
  "checkShardIds ss c = Inl e \<Longrightarrow> \<exists>s\<in>set ss. c \<le> s \<and> e = ShardIdExceedsMax s (c - 1)"
  by (induction ss) (auto simp: checkShardId_def split: if_splits)

text \<open>
  Claim C6. With both \<open>shards\<close> and \<open>shardCount\<close> defined, \<open>enqueueGateways\<close>
  throws whenever some shard id is at least \<open>shardCount\<close> (the error names such an id
  and the maximum \<open>shardCount - 1\<close>); in particular it throws when \<open>shardCount\<close>
  itself is among the ids; and the check of the ids raises no error when every id is
  strictly less than \<open>shardCount\<close>.
\<close>

theorem enqueueGateways_rejects_shard_ids:
  "((\<exists>s\<in>set ss. shardCount \<le> s) \<longrightarrow>
      (\<exists>s\<in>set ss. shardCount \<le> s \<and>
         enqueueGateways gatewayBot (Some ss) (Some shardCount) this
           = Inl (ShardIdExceedsMax s (shardCount - 1))))
   \<and> (shardCount \<in> set ss \<longrightarrow>
        isl (enqueueGateways gatewayBot (Some ss) (Some shardCount) this))
   \<and> ((\<forall>s\<in>set ss. s < shardCount) \<longrightarrow> checkShardIds ss shardCount = Inr ())"
proof (intro conjI impI)
  assume ex: "\<exists>s\<in>set ss. shardCount \<le> s"
  then have "isl (checkShardIds ss shardCount)"
    by (simp add: checkShardIds_isl)
  then obtain e where e: "checkShardIds ss shardCount = Inl e"
    by (cases "checkShardIds ss shardCount") auto
  from checkShardIds_Inl[OF e] obtain s
    where "s \<in> set ss" "shardCount \<le> s" "e = ShardIdExceedsMax s (shardCount - 1)"
    by blast
  with e show "\<exists>s\<in>set ss. shardCount \<le> s \<and>
         enqueueGateways gatewayBot (Some ss) (Some shardCount) this
           = Inl (ShardIdExceedsMax s (shardCount - 1))"
    by (auto simp: enqueueGateways_def)
next
  assume "shardCount \<in> set ss"
  then have "isl (checkShardIds ss shardCount)"
    by (auto simp: checkShardIds_isl)
  then show "isl (enqueueGateways gatewayBot (Some ss) (Some shardCount) this)"
    by (cases "checkShardIds ss shardCount") (auto simp: enqueueGateways_def)
next
  assume "\<forall>s\<in>set ss. s < shardCount"
  then have "\<not> isl (checkShardIds ss shardCount)"
    by (auto simp: checkShardIds_isl)
  then show "checkShardIds ss shardCount = Inr ()"
    by (cases "checkShardIds ss shardCount") auto
qed

theorem enqueueGateways_rejects_shard_ids_witness:
  "enqueueGateways (Inr (200, 2)) (Some [0, 2]) (Some 2) example_client
     = Inl (ShardIdExceedsMax 2 1)
   \<and> isl (enqueueGateways (Inr (200, 2)) (Some [0, 2]) (Some 2) example_client)
   \<and> checkShardIds [0, 1] 2 = Inr ()"
  using enqueueGateways_rejects_shard_ids [of "[0, 2]" 2 "Inr (200, 2)" example_client]
    enqueueGateways_rejects_shard_ids [of "[0, 1]" 2 "Inr (200, 2)" example_client]
  by (simp add: enqueueGateways_def checkShardId_def)

section \<open>Properties of the rate limit service\<close>

text \<open>
  Claim C8. When the decoded message has no bucket, \<open>update\<close> does not call
  \<open>rateLimitCache.update\<close> and leaves the cache as it is, and it invokes the callback
  with \<open>null\<close> (after a \<open>DEBUG\<close> log). When the bucket is defined, it calls
  \<open>rateLimitCache.update\<close> once, with the request built from the method and url and
  the headers built from the decoded \<open>(global, bucket, limit, remaining, resetAfter)\<close>.
\<close>

theorem update_without_bucket_is_noop:
  "rateLimitCache (update newBaseRequest cacheUpdate
       (Inr (RateLimitStateMessage (RequestMetaMessage method url) global None l r ra)) this)
     = rateLimitCache this
   \<and> rateLimitCache_updates (update newBaseRequest cacheUpdate
       (Inr (RateLimitStateMessage (RequestMetaMessage method url) global None l r ra)) this)
     = rateLimitCache_updates this
   \<and> callbacks (update newBaseRequest cacheUpdate
       (Inr (RateLimitStateMessage (RequestMetaMessage method url) global None l r ra)) this)
     = callbacks this @ [None]
   \<and> rateLimitCache_updates (update newBaseRequest cacheUpdate
       (Inr (RateLimitStateMessage (RequestMetaMessage method url) global (Some b) l r ra)) this)
     = rateLimitCache_updates this
       @ [(newBaseRequest method url, RateLimitHeaders global b l r ra)]
   \<and> rateLimitCache (update newBaseRequest cacheUpdate
       (Inr (RateLimitStateMessage (RequestMetaMessage method url) global (Some b) l r ra)) this)
     = snd (cacheUpdate (newBaseRequest method url) (RateLimitHeaders global b l r ra)
              (rateLimitCache this))"
  by (auto simp: update_def Let_def split: prod.splits option.splits)

theorem update_without_bucket_is_noop_witness:
  "update (\<lambda>method url. (method, url)) (\<lambda>request headers cache. (None, headers # cache))
       (Inr (RateLimitStateMessage (RequestMetaMessage ''get'' ''gateway/bot'')
               False None None (Some 4) None))
       \<lparr>rateLimitCache = [], rateLimitCache_updates = [], server_emitted = [],
        callbacks = ([] :: string option list)\<rparr>
     = \<lparr>rateLimitCache = [], rateLimitCache_updates = [], server_emitted = [DEBUG],
        callbacks = [None]\<rparr>"
  using update_without_bucket_is_noop [of "\<lambda>method url. (method, url)"
      "\<lambda>request headers cache. (None, headers # cache)" "''get''" "''gateway/bot''" False
      None "Some 4" None
      "\<lparr>rateLimitCache = [], rateLimitCache_updates = [], server_emitted = [],
        callbacks = ([] :: string option list)\<rparr>"]
  by (simp add: update_def)

text \<open>
  Claim C9. Constructing the client with an \<open>undefined\<close> token throws; with a defined
  token the constructor succeeds and stores the token as \<open>coerceTokenToBotLike\<close>
  returns it: unchanged if it starts with \<open>Bot \<close>, and with \<open>Bot \<close> put in front
  otherwise, so that the stored token always starts with \<open>Bot \<close>.
\<close>

theorem new_Paracord_token:
  "new_Paracord None options = Inl TokenRequired
   \<and> (\<exists>this. new_Paracord (Some t) options = Inr this
        \<and> token this = coerceTokenToBotLike t
        \<and> token this = (if take 4 t = ''Bot '' then t else ''Bot '' @ t)
        \<and> take 4 (token this) = ''Bot '')"
  by (auto simp: new_Paracord_def validateParams_def init_def coerceTokenToBotLike_def Let_def)

theorem new_Paracord_token_witness:
  "new_Paracord None \<lparr>autoInit = None\<rparr> = Inl TokenRequired
   \<and> map_sum id token (new_Paracord (Some ''abc'') \<lparr>autoInit = None\<rparr>) = Inr ''Bot abc''
   \<and> map_sum id token (new_Paracord (Some ''Bot abc'') \<lparr>autoInit = Some False\<rparr>) = Inr ''Bot abc''"
  using new_Paracord_token [of "\<lparr>autoInit = None\<rparr>" "''abc''"]
    new_Paracord_token [of "\<lparr>autoInit = Some False\<rparr>" "''Bot abc''"]
  by (simp add: new_Paracord_def validateParams_def init_def coerceTokenToBotLike_def)

end
